theory Spec2Isabelle
  imports Main "HOL-Library.Sublist"
begin

section \<open>JavaScript values, as far as the handlers use them\<close>

text \<open>
  The repository holds three variants of one Express server: \<^verbatim>\<open>server.js\<close>,
  \<^verbatim>\<open>part_000\<close> (the variant that talks to the LLM through the vendor SDK and to Slack
  through node-fetch) and \<^verbatim>\<open>part_001\<close>. Each registers the same middleware and the
  same two POST routes. The handlers are modelled as functions from the request and from
  the outcome of every outbound call to the effects they produce: the list of outbound
  calls and the list of HTTP responses sent. Writes to the console are left out.

  A value parsed from JSON is a \<open>json\<close>; \<open>None\<close> of \<open>json option\<close> is JavaScript's
  \<^verbatim>\<open>undefined\<close>.

  A JSON number is an IEEE double. The handlers never compute with one: they test its
  truthiness, compare it with \<^verbatim>\<open>0\<close> and convert it to a string. A number is
  therefore carried as these three observations: whether it is not zero, whether it is
  greater than zero, and the string JavaScript prints for it. Every double gives such a
  triple, and what is proved below holds for every triple.
\<close>

datatype js_number = Number (num_nonzero: bool) (num_positive: bool) (num_string: string)

datatype json =
    JNull
  | JBool bool
  | JNum js_number
  | JStr string
  | JArr "json list"
  | JObj "(string \<times> json) list"

type_synonym jsval = "json option"

text \<open>A thrown value: \<^verbatim>\<open>e.message\<close>, and \<^verbatim>\<open>e.response\<close> (status and data) when it has one.\<close>

record js_error =
  err_response :: "(nat \<times> json) option"
  err_message :: string

text \<open>A step that may throw, followed by the rest of the \<^verbatim>\<open>try\<close> block.\<close>

definition then_js :: "js_error + 'a \<Rightarrow> ('a \<Rightarrow> js_error + 'b) \<Rightarrow> js_error + 'b" where
  "then_js m f = (case m of Inl e \<Rightarrow> Inl e | Inr x \<Rightarrow> f x)"

text \<open>Truthiness, as \<^verbatim>\<open>if (v)\<close>, \<^verbatim>\<open>!v\<close>, \<^verbatim>\<open>v && w\<close> and \<^verbatim>\<open>v || w\<close> test it.\<close>

fun truthy :: "jsval \<Rightarrow> bool" where
  "truthy None = False"
| "truthy (Some JNull) = False"
| "truthy (Some (JBool b)) = b"
| "truthy (Some (JNum n)) = num_nonzero n"
| "truthy (Some (JStr s)) = (s \<noteq> [])"
| "truthy (Some (JArr xs)) = True"
| "truthy (Some (JObj kvs)) = True"

definition js_or :: "jsval \<Rightarrow> jsval \<Rightarrow> jsval" where
  "js_or v w = (if truthy v then v else w)"

text \<open>
  Decimal digits of a natural number. A status code and the length of an array or of a
  string are natural numbers below \<^verbatim>\<open>2^53\<close>, which JavaScript prints in decimal.
\<close>

definition digit_char :: "nat \<Rightarrow> char" where
  "digit_char d = char_of (48 + d)"

fun show_nat :: "nat \<Rightarrow> string" where
  "show_nat n = (if n < 10 then [digit_char n] else show_nat (n div 10) @ [digit_char (n mod 10)])"

declare show_nat.simps [simp del]

definition number_of_nat :: "nat \<Rightarrow> js_number" where
  "number_of_nat n = Number (n \<noteq> 0) (0 < n) (show_nat n)"

definition join_comma :: "string list \<Rightarrow> string" where
  "join_comma ss = (case ss of [] \<Rightarrow> [] | s # rest \<Rightarrow> s @ concat (map (\<lambda>t. CHR '','' # t) rest))"

text \<open>
  String conversion of a template literal \<^verbatim>\<open>`${v}`\<close>. An array is its elements joined
  by commas, with \<^verbatim>\<open>null\<close> elements empty; an object is \<^verbatim>\<open>[object Object]\<close>.
\<close>

fun json_to_string :: "json \<Rightarrow> string" where
  "json_to_string JNull = ''null''"
| "json_to_string (JBool b) = (if b then ''true'' else ''false'')"
| "json_to_string (JNum n) = num_string n"
| "json_to_string (JStr s) = s"
| "json_to_string (JArr xs) =
     join_comma (map (\<lambda>x. if x = JNull then [] else json_to_string x) xs)"
| "json_to_string (JObj kvs) = ''[object Object]''"

definition to_string :: "jsval \<Rightarrow> string" where
  "to_string v = (case v of None \<Rightarrow> ''undefined'' | Some j \<Rightarrow> json_to_string j)"

text \<open>
  Property reads. Reading a property of \<^verbatim>\<open>undefined\<close> or \<^verbatim>\<open>null\<close> throws a TypeError
  (the message is V8's). \<open>member\<close> reads a named property that no built-in prototype
  defines (\<^verbatim>\<open>candidates\<close>, \<^verbatim>\<open>content\<close>, \<^verbatim>\<open>parts\<close>, \<^verbatim>\<open>text\<close>, \<^verbatim>\<open>error\<close>, \<^verbatim>\<open>message\<close>):
  only a plain object can have it. \<open>length_of\<close> is \<^verbatim>\<open>v.length\<close> and \<open>first_of\<close> is
  \<^verbatim>\<open>v[0]\<close>, which arrays and strings answer themselves.
\<close>

definition type_error :: "string \<Rightarrow> string \<Rightarrow> js_error" where
  \<open>type_error what k =
     \<lparr>err_response = None,
      err_message = ''Cannot read properties of '' @ what @ '' (reading ''
                    @ [CHR 0x27] @ k @ [CHR 0x27] @ '')''\<rparr>\<close>

fun member :: "string \<Rightarrow> jsval \<Rightarrow> js_error + jsval" where
  "member k None = Inl (type_error ''undefined'' k)"
| "member k (Some JNull) = Inl (type_error ''null'' k)"
| "member k (Some (JObj kvs)) = Inr (map_of kvs k)"
| "member k (Some v) = Inr None"

fun length_of :: "jsval \<Rightarrow> js_error + jsval" where
  "length_of None = Inl (type_error ''undefined'' ''length'')"
| "length_of (Some JNull) = Inl (type_error ''null'' ''length'')"
| "length_of (Some (JArr xs)) = Inr (Some (JNum (number_of_nat (length xs))))"
| "length_of (Some (JStr s)) = Inr (Some (JNum (number_of_nat (length s))))"
| "length_of (Some (JObj kvs)) = Inr (map_of kvs ''length'')"
| "length_of (Some v) = Inr None"

fun first_of :: "jsval \<Rightarrow> js_error + jsval" where
  "first_of None = Inl (type_error ''undefined'' ''0'')"
| "first_of (Some JNull) = Inl (type_error ''null'' ''0'')"
| "first_of (Some (JArr xs)) = Inr (case xs of [] \<Rightarrow> None | x # rest \<Rightarrow> Some x)"
| "first_of (Some (JStr s)) = Inr (case s of [] \<Rightarrow> None | c # rest \<Rightarrow> Some (JStr [c]))"
| "first_of (Some (JObj kvs)) = Inr (map_of kvs ''0'')"
| "first_of (Some v) = Inr None"

text \<open>Optional chaining \<^verbatim>\<open>v?.k\<close>: \<^verbatim>\<open>undefined\<close> when \<open>v\<close> is \<^verbatim>\<open>undefined\<close> or \<^verbatim>\<open>null\<close>.\<close>

fun opt_member :: "string \<Rightarrow> jsval \<Rightarrow> jsval" where
  "opt_member k (Some (JObj kvs)) = map_of kvs k"
| "opt_member k v = None"

text \<open>
  The comparison \<^verbatim>\<open>v > 0\<close>. On a number it is the number's own observation,
  \<^verbatim>\<open>undefined\<close> is NaN, \<^verbatim>\<open>null\<close> is 0, a boolean is 0 or 1. A string, an array or
  an object is first converted to a number by the runtime; that conversion is the
  parameter \<open>gt0\<close>. It is reached only for a plain object with a \<^verbatim>\<open>length\<close> member
  of its own that is not a number.
\<close>

fun js_gt_zero :: "(json \<Rightarrow> bool) \<Rightarrow> jsval \<Rightarrow> bool" where
  "js_gt_zero gt0 None = False"
| "js_gt_zero gt0 (Some JNull) = False"
| "js_gt_zero gt0 (Some (JBool b)) = b"
| "js_gt_zero gt0 (Some (JNum n)) = num_positive n"
| "js_gt_zero gt0 (Some v) = gt0 v"

section \<open>Requests, responses and effects\<close>

text \<open>
  The request body after \<^verbatim>\<open>bodyParser.json()\<close>, with the fields the handlers
  destructure. Each field is a string or is omitted, as the interface declares them.
\<close>

record todo_body =
  "text" :: "string option"
  dueDate :: "string option"
  dueTime :: "string option"
  summary :: "string option"
  userId :: "string option"

text \<open>
  \<open>req_headers\<close> is Node's \<^verbatim>\<open>req.headers\<close> (names in lower case); \<open>req_userId\<close> is the
  property \<^verbatim>\<open>req.userId\<close>, which only the middleware assigns.
\<close>

record request =
  req_headers :: "string \<rightharpoonup> string"
  req_body :: todo_body
  req_userId :: "string option"

text \<open>
  A response that was sent: its status, and the members of the JSON object in its body,
  or \<open>None\<close> when it was sent without a body.
\<close>

record http_response =
  status :: nat
  body :: "(string \<times> json) list option"

datatype outbound_call =
    AxiosPost string json
  | GenerateContent string
  | FetchPost string json

record effects =
  outbound :: "outbound_call list"
  responses :: "http_response list"

definition no_effects :: effects where
  "no_effects = \<lparr>outbound = [], responses = []\<rparr>"

definition call_out :: "outbound_call \<Rightarrow> effects \<Rightarrow> effects" where
  "call_out c fx = fx\<lparr>outbound := outbound fx @ [c]\<rparr>"

text \<open>Serialising an object leaves out the members whose value is \<^verbatim>\<open>undefined\<close>.\<close>

definition stringify_members :: "(string \<times> jsval) list \<Rightarrow> (string \<times> json) list" where
  "stringify_members kvs = concat (map (\<lambda>(k, v). case v of None \<Rightarrow> [] | Some j \<Rightarrow> [(k, j)]) kvs)"

text \<open>
  \<^verbatim>\<open>res.status(code).json(obj)\<close>. A status code outside 100 to 999 is refused with
  a RangeError, thrown by this statement before anything is sent (by \<^verbatim>\<open>writeHead\<close>
  of Node under Express 4, by \<^verbatim>\<open>res.status\<close> under Express 5). Otherwise one more
  response is sent. Express sends the statuses 204 and 304 with an empty body, and Node
  writes no body for an informational status (below 200). The handlers pass the
  literal codes 200, 400 and 500, and a status forwarded from the webhook, which is
  never a 2xx status; so 205, which recent versions of Express also send empty, is
  never passed.
\<close>

definition bodiless :: "nat \<Rightarrow> bool" where
  "bodiless code \<longleftrightarrow> code < 200 \<or> code = 204 \<or> code = 304"

definition range_error :: "nat \<Rightarrow> js_error" where
  "range_error code =
     \<lparr>err_response = None, err_message = ''Invalid status code: '' @ show_nat code\<rparr>"

definition res_json :: "nat \<Rightarrow> (string \<times> jsval) list \<Rightarrow> effects \<Rightarrow> js_error + effects" where
  "res_json code obj fx =
     (if code < 100 \<or> 999 < code then Inl (range_error code)
      else Inr (fx\<lparr>responses := responses fx @
                  [\<lparr>status = code,
                    body = (if bodiless code then None else Some (stringify_members obj))\<rparr>]\<rparr>))"

text \<open>
  A throw that no \<^verbatim>\<open>catch\<close> block encloses rejects the promise of the handler:
  nothing more is sent, and the effects stay as they were.
\<close>

definition or_uncaught :: "js_error + effects \<Rightarrow> effects \<Rightarrow> effects" where
  "or_uncaught r fx = (case r of Inr fx' \<Rightarrow> fx' | Inl e \<Rightarrow> fx)"

text \<open>A string field that may be omitted, as a JavaScript value and inside a template.\<close>

definition field_val :: "string option \<Rightarrow> jsval" where
  "field_val f = map_option JStr f"

definition tpl :: "string option \<Rightarrow> string" where
  "tpl f = to_string (field_val f)"

definition given :: "string option \<Rightarrow> bool" where
  "given f = truthy (field_val f)"

text \<open>\<^verbatim>\<open>f || 'dflt'\<close> on a string field.\<close>

definition or_default :: "string option \<Rightarrow> string \<Rightarrow> string" where
  "or_default f dflt = to_string (js_or (field_val f) (Some (JStr dflt)))"

section \<open>The middleware\<close>

text \<open>
  \<^verbatim>\<open>req.userId = req.headers['x-user-id'] || 'anonymous'; next();\<close>
  (the same in all three variants).
\<close>

definition userId_middleware :: "request \<Rightarrow> request" where
  "userId_middleware req =
     req\<lparr>req_userId := Some (or_default (req_headers req ''x-user-id'') ''anonymous'')\<rparr>"

section \<open>The HTTP clients\<close>

text \<open>
  What the provider does with one request: it answers with a status and a body, or the
  transport fails. For axios the body is \<^verbatim>\<open>response.data\<close>: the parsed JSON, or the
  raw text as a string when the body is not JSON.
\<close>

datatype http_outcome =
    HttpResponse nat json
  | NetworkError string

text \<open>
  \<^verbatim>\<open>await axios.post(url, data, config)\<close> with the default \<^verbatim>\<open>validateStatus\<close>
  (the source: "Axios throws for 4xx/5xx by default"): a status from 200 to 299
  resolves, any other status rejects with an error that carries the response.
\<close>

definition is_2xx :: "nat \<Rightarrow> bool" where
  "is_2xx st \<longleftrightarrow> 200 \<le> st \<and> st < 300"

definition axios_post :: "http_outcome \<Rightarrow> js_error + (nat \<times> json)" where
  "axios_post out =
     (case out of
        HttpResponse st d \<Rightarrow>
          if is_2xx st then Inr (st, d)
          else Inl \<lparr>err_response = Some (st, d),
                    err_message = ''Request failed with status code '' @ show_nat st\<rparr>
      | NetworkError m \<Rightarrow> Inl \<lparr>err_response = None, err_message = m\<rparr>)"

text \<open>
  \<^verbatim>\<open>await fetch(url, {...})\<close> of node-fetch resolves for every status and rejects
  when the transport fails; \<^verbatim>\<open>await response.text()\<close> reads the body, which can
  fail as well.
\<close>

datatype fetch_outcome =
    FetchResponse nat "js_error + string"
  | FetchFailed js_error

text \<open>
  \<^verbatim>\<open>(await model.generateContent(prompt)).response.text()\<close> of the vendor SDK: the
  generated text, or a thrown error.
\<close>

type_synonym sdk_outcome = "js_error + string"

text \<open>
  Everything outside the request that a handler depends on: the two configuration
  constants and the outcome of each outbound call. \<^verbatim>\<open>SLACK_WEBHOOK_URL\<close> is bound to
  a literal address in \<^verbatim>\<open>server.js\<close>, to the environment variable or else a literal
  address in \<^verbatim>\<open>part_001\<close>, and to the environment variable alone in \<^verbatim>\<open>part_000\<close>,
  where it can be \<^verbatim>\<open>undefined\<close>.
\<close>

record world =
  GEMINI_API_KEY :: string
  SLACK_WEBHOOK_URL :: "string option"
  gt0 :: "json \<Rightarrow> bool"
  llm_http :: http_outcome
  llm_sdk :: sdk_outcome
  slack_http :: http_outcome
  slack_fetch :: fetch_outcome

section \<open>POST /summarize-single-todo\<close>

definition due_suffix :: "todo_body \<Rightarrow> string" where
  "due_suffix b =
     (if given (dueDate b) then '' due on '' @ tpl (dueDate b) else []) @
     (if given (dueTime b) then '' at '' @ tpl (dueTime b) else [])"

definition prompt_server :: "todo_body \<Rightarrow> string" where
  \<open>prompt_server b =
     ''Summarize the following todo item: "'' @ tpl (text b) @ ''"'' @ due_suffix b @
     ''. Provide a concise summary of approximately 4 to 5 lines, between 100 and 299 words, and ensure it is action-oriented.''\<close>

definition prompt_part_000 :: "todo_body \<Rightarrow> string" where
  \<open>prompt_part_000 b =
     ''Description Answer and Summarize the following todo item: "'' @ tpl (text b) @ ''"'' @ due_suffix b @
     ''. Provide a concise answer and summary of approximately 2 to 3 lines, between 100 and 299 words. Format the summary as a bulleted list, ensuring each point is action-oriented.''\<close>

definition prompt_part_001 :: "todo_body \<Rightarrow> string" where
  \<open>prompt_part_001 b =
     ''Description Answer and Summarize  the following todo item: "'' @ tpl (text b) @ ''"'' @ due_suffix b @
     ''. Provide a concise answer and summary of approximately 2 to 3 line answer and summary 4 to 5 lines, between 100 and 299 words. Format the summary as a bulleted list, ensuring each point is action-oriented.''\<close>

definition gemini_payload :: "string \<Rightarrow> json" where
  "gemini_payload prompt =
     JObj [(''contents'',
            JArr [JObj [(''role'', JStr ''user''),
                        (''parts'', JArr [JObj [(''text'', JStr prompt)]])]])]"

definition gemini_url :: "string \<Rightarrow> string" where
  "gemini_url key =
     ''https://generativelanguage.googleapis.com/v1beta/models/gemini-2.0-flash:generateContent?key='' @ key"

text \<open>
  The guard of the axios variants, evaluated left to right with \<^verbatim>\<open>&&\<close> cutting short:
  \<^verbatim>\<open>llmResult.candidates && llmResult.candidates.length > 0 &&
  llmResult.candidates[0].content && llmResult.candidates[0].content.parts &&
  llmResult.candidates[0].content.parts.length > 0\<close>.
  A property read inside it can throw.
\<close>

definition candidate_guard :: "(json \<Rightarrow> bool) \<Rightarrow> json \<Rightarrow> js_error + bool" where
  "candidate_guard g llmResult =
     then_js (member ''candidates'' (Some llmResult)) (\<lambda>candidates.
     if \<not> truthy candidates then Inr False else
     then_js (length_of candidates) (\<lambda>n.
     if \<not> js_gt_zero g n then Inr False else
     then_js (first_of candidates) (\<lambda>c0.
     then_js (member ''content'' c0) (\<lambda>content.
     if \<not> truthy content then Inr False else
     then_js (member ''parts'' content) (\<lambda>parts.
     if \<not> truthy parts then Inr False else
     then_js (length_of parts) (\<lambda>m. Inr (js_gt_zero g m)))))))"

text \<open>\<^verbatim>\<open>llmResult.candidates[0].content.parts[0].text\<close>\<close>

definition candidate_text :: "json \<Rightarrow> js_error + jsval" where
  "candidate_text llmResult =
     then_js (member ''candidates'' (Some llmResult)) (\<lambda>candidates.
     then_js (first_of candidates) (\<lambda>c0.
     then_js (member ''content'' c0) (\<lambda>content.
     then_js (member ''parts'' content) (\<lambda>parts.
     then_js (first_of parts) (\<lambda>p0.
     member ''text'' p0)))))"

text \<open>
  The body of the \<^verbatim>\<open>try\<close> block after the call, up to the value of \<^verbatim>\<open>summary\<close>;
  \<open>otherwise\<close> is what \<^verbatim>\<open>summary\<close> holds when the guard is false.
\<close>

definition summary_of_llm :: "(json \<Rightarrow> bool) \<Rightarrow> jsval \<Rightarrow> http_outcome \<Rightarrow> js_error + jsval" where
  "summary_of_llm g otherwise out =
     then_js (axios_post out) (\<lambda>(st, llmResult).
     then_js (candidate_guard g llmResult) (\<lambda>ok.
     if ok then candidate_text llmResult else Inr otherwise))"

text \<open>\<^verbatim>\<open>llmError.response?.data\<close>\<close>

definition err_data :: "js_error \<Rightarrow> jsval" where
  "err_data e = (case err_response e of None \<Rightarrow> None | Some (st, d) \<Rightarrow> Some d)"

text \<open>\<^verbatim>\<open>llmError.response?.data?.error?.message || llmError.message\<close>, in a template.\<close>

definition llm_error_text :: "js_error \<Rightarrow> string" where
  "llm_error_text e =
     to_string (js_or (opt_member ''message'' (opt_member ''error'' (err_data e)))
                      (Some (JStr (err_message e))))"

definition summary_ok :: "jsval \<Rightarrow> effects \<Rightarrow> js_error + effects" where
  "summary_ok s fx =
     res_json 200 [(''message'', Some (JStr ''Single todo summary generated successfully.'')),
                   (''summary'', s)] fx"

definition summary_failed :: "js_error \<Rightarrow> effects \<Rightarrow> js_error + effects" where
  "summary_failed llmError fx =
     res_json 500 [(''error'', Some (JStr (''Error generating summary for single todo: ''
                                            @ llm_error_text llmError)))] fx"

definition fallback_summary :: string where
  "fallback_summary = ''Could not generate a meaningful summary for this todo.''"

text \<open>
  \<^verbatim>\<open>server.js\<close>, lines 63 to 102. The \<^verbatim>\<open>try\<close> block runs from the call to the
  response with status 200; whatever it throws reaches the \<^verbatim>\<open>catch\<close> block.
\<close>

definition summarize_single_todo_server :: "world \<Rightarrow> request \<Rightarrow> effects" where
  "summarize_single_todo_server w req =
     (let prompt = prompt_server (req_body req);
          fx = call_out (AxiosPost (gemini_url (GEMINI_API_KEY w)) (gemini_payload prompt)) no_effects
      in case then_js (summary_of_llm (gt0 w) (Some (JStr fallback_summary)) (llm_http w))
                      (\<lambda>s. summary_ok s fx) of
           Inr fx' \<Rightarrow> fx'
         | Inl llmError \<Rightarrow> or_uncaught (summary_failed llmError fx) fx)"

text \<open>
  \<^verbatim>\<open>part_001\<close>, lines 52 to 90: the \<^verbatim>\<open>else\<close> branch only logs, so \<^verbatim>\<open>summary\<close>
  keeps its initial value \<^verbatim>\<open>""\<close>, and the \<^verbatim>\<open>catch\<close> block only logs.
\<close>

definition summarize_single_todo_part_001 :: "world \<Rightarrow> request \<Rightarrow> effects" where
  "summarize_single_todo_part_001 w req =
     (let prompt = prompt_part_001 (req_body req);
          fx = call_out (AxiosPost (gemini_url (GEMINI_API_KEY w)) (gemini_payload prompt)) no_effects
      in case then_js (summary_of_llm (gt0 w) (Some (JStr [])) (llm_http w))
                      (\<lambda>s. summary_ok s fx) of
           Inr fx' \<Rightarrow> fx'
         | Inl llmError \<Rightarrow> fx)"

text \<open>\<^verbatim>\<open>part_000\<close>, lines 75 to 104: the SDK call.\<close>

definition summarize_single_todo_part_000 :: "world \<Rightarrow> request \<Rightarrow> effects" where
  "summarize_single_todo_part_000 w req =
     (let prompt = prompt_part_000 (req_body req);
          fx = call_out (GenerateContent prompt) no_effects
      in case then_js (llm_sdk w) (\<lambda>s. summary_ok (Some (JStr s)) fx) of
           Inr fx' \<Rightarrow> fx'
         | Inl llmError \<Rightarrow> or_uncaught (summary_failed llmError fx) fx)"

section \<open>POST /send-single-todo-to-slack\<close>

definition placeholder_url :: string where
  "placeholder_url = ''YOUR_SLACK_WEBHOOK_URL_HERE''"

text \<open>\<^verbatim>\<open>!SLACK_WEBHOOK_URL || SLACK_WEBHOOK_URL === 'YOUR_SLACK_WEBHOOK_URL_HERE'\<close>\<close>

definition webhook_unconfigured :: "string option \<Rightarrow> bool" where
  "webhook_unconfigured url \<longleftrightarrow> \<not> given url \<or> url = Some placeholder_url"

definition plain_error :: "string \<Rightarrow> js_error" where
  "plain_error m = \<lparr>err_response = None, err_message = m\<rparr>"

subsection \<open>\<^verbatim>\<open>server.js\<close> (lines 105 to 141) and \<^verbatim>\<open>part_001\<close> (lines 94 to 130)\<close>

definition slack_text_axios :: "todo_body \<Rightarrow> string" where
  "slack_text_axios b =
     ''*New Todo Alert for User '' @ tpl (userId b) @ ''*:\<newline>'' @
     ''*Task*: '' @ tpl (text b) @ ''\<newline>'' @
     (if given (dueDate b) then ''*Due Date*: '' @ tpl (dueDate b) @ ''\<newline>'' else []) @
     (if given (dueTime b) then ''*Due Time*: '' @ tpl (dueTime b) @ ''\<newline>'' else []) @
     (if given (summary b) then ''*Summary*: '' @ tpl (summary b) @ ''\<newline>''
      else ''_No summary provided._\<newline>'')"

text \<open>\<^verbatim>\<open>slackError.response?.status || 500\<close>\<close>

definition err_status_or_500 :: "js_error \<Rightarrow> nat" where
  "err_status_or_500 e =
     (case err_response e of None \<Rightarrow> 500 | Some (st, d) \<Rightarrow> if st = 0 then 500 else st)"

definition slack_catch_axios :: "js_error \<Rightarrow> effects \<Rightarrow> js_error + effects" where
  "slack_catch_axios slackError fx =
     res_json (err_status_or_500 slackError)
       [(''error'', Some (JStr (''Internal server error: '' @
           to_string (js_or (opt_member ''error'' (err_data slackError))
                            (Some (JStr (err_message slackError)))))))] fx"

definition send_single_todo_to_slack_axios :: "world \<Rightarrow> request \<Rightarrow> effects" where
  "send_single_todo_to_slack_axios w req =
     (let slackMessage = slack_text_axios (req_body req) in
      if webhook_unconfigured (SLACK_WEBHOOK_URL w)
      then or_uncaught
             (slack_catch_axios
                (plain_error ''Slack Webhook URL is not configured in the backend.'') no_effects)
             no_effects
      else
        let fx = call_out (AxiosPost (tpl (SLACK_WEBHOOK_URL w))
                                     (JObj [(''text'', JStr slackMessage)])) no_effects
        in case axios_post (slack_http w) of
             Inl slackError \<Rightarrow> or_uncaught (slack_catch_axios slackError fx) fx
           | Inr (st, d) \<Rightarrow>
               (case (if 200 \<le> st \<and> st < 300
                      then res_json 200 [(''message'', Some (JStr ''Todo sent to Slack successfully!''))] fx
                      else res_json st
                             [(''error'', Some (JStr (''Failed to send todo to Slack: '' @
                                 to_string (js_or (Some d) (Some (JStr ''Unknown error''))))))] fx) of
                  Inr fx' \<Rightarrow> fx'
                | Inl slackError \<Rightarrow> or_uncaught (slack_catch_axios slackError fx) fx))"

subsection \<open>\<^verbatim>\<open>part_000\<close> (lines 108 to 199)\<close>

definition slack_prompt :: "todo_body \<Rightarrow> string" where
  \<open>slack_prompt b =
     ''Summarize the following single to-do item for a Slack message. Keep it concise and action-oriented. Include the due date/time if provided.\<newline>'' @
     ''      To-do: "'' @ tpl (text b) @ ''"\<newline>'' @
     ''      Due Date: '' @ or_default (dueDate b) ''Not specified'' @ ''\<newline>'' @
     ''      Due Time: '' @ or_default (dueTime b) ''Not specified''\<close>

definition summary_fallback_for :: "todo_body \<Rightarrow> string" where
  \<open>summary_fallback_for b = ''Could not generate summary for: "'' @ tpl (text b) @ ''".''\<close>

definition mrkdwn :: "string \<Rightarrow> json" where
  "mrkdwn s = JObj [(''type'', JStr ''mrkdwn''), (''text'', JStr s)]"

definition slack_blocks_message :: "todo_body \<Rightarrow> string \<Rightarrow> string \<Rightarrow> json" where
  "slack_blocks_message b userAgent finalSummary =
     JObj [
       (''text'', JStr (''*New Todo Update from '' @ tpl (userId b) @ '' ('' @ userAgent @ ''):*\<newline>''
                        @ finalSummary)),
       (''blocks'', JArr [
          JObj [(''type'', JStr ''section''),
                (''text'', mrkdwn (''*New Todo Update from `'' @ tpl (userId b) @ ''`*:''))],
          JObj [(''type'', JStr ''section''),
                (''fields'', JArr [mrkdwn (''*Todo:*\<newline>'' @ tpl (text b)),
                                   mrkdwn (''*Summary:*\<newline>'' @ finalSummary)])],
          JObj [(''type'', JStr ''context''),
                (''elements'', JArr [mrkdwn (''*Due:* '' @ or_default (dueDate b) ''N/A'' @ '' ''
                                             @ or_default (dueTime b) ''N/A''
                                             @ '' | *Sent by:* '' @ userAgent)])]])]"

definition slack_catch_fetch :: "effects \<Rightarrow> js_error + effects" where
  "slack_catch_fetch fx =
     res_json 500 [(''error'', Some (JStr ''Internal server error: Could not send message to Slack.''))] fx"

text \<open>
  The summary step: \<^verbatim>\<open>finalSummary\<close> is the caller's summary when it is truthy;
  otherwise the SDK is called, and its failure is replaced by the fallback string.
\<close>

definition final_summary :: "world \<Rightarrow> todo_body \<Rightarrow> string \<times> effects" where
  "final_summary w b =
     (if given (summary b) then (tpl (summary b), no_effects)
      else
        let fx = call_out (GenerateContent (slack_prompt b)) no_effects
        in case llm_sdk w of
             Inr s \<Rightarrow> (s, fx)
           | Inl llmError \<Rightarrow> (summary_fallback_for b, fx))"

definition send_single_todo_to_slack_part_000 :: "world \<Rightarrow> request \<Rightarrow> effects" where
  "send_single_todo_to_slack_part_000 w req =
     (let b = req_body req;
          userAgent = or_default (req_headers req ''user-agent'') ''Unknown User-Agent''
      in
      if \<not> given (text b)
      then or_uncaught (res_json 400 [(''error'', Some (JStr ''Todo text is required.''))] no_effects)
                       no_effects
      else
        let (finalSummary, fx) = final_summary w b;
            slackMessage = slack_blocks_message b userAgent finalSummary
        in
        if webhook_unconfigured (SLACK_WEBHOOK_URL w)
        then or_uncaught (slack_catch_fetch fx) fx
        else
          let fx2 = call_out (FetchPost (tpl (SLACK_WEBHOOK_URL w)) slackMessage) fx
          in case slack_fetch w of
               FetchFailed e \<Rightarrow> or_uncaught (slack_catch_fetch fx2) fx2
             | FetchResponse st bodyText \<Rightarrow>
                 (case (if is_2xx st
                        then res_json 200 [(''message'', Some (JStr ''Todo summary sent to Slack successfully!''))] fx2
                        else then_js bodyText (\<lambda>errorData.
                               res_json st [(''error'', Some (JStr (''Failed to send message to Slack: ''
                                                                    @ errorData)))] fx2)) of
                    Inr fx' \<Rightarrow> fx'
                  | Inl e \<Rightarrow> or_uncaught (slack_catch_fetch fx2) fx2))"

section \<open>The two routes of each variant\<close>

datatype variant = ServerJs | Part000 | Part001

text \<open>A request passes the middleware and then reaches the route's handler.\<close>

definition post_summarize :: "variant \<Rightarrow> world \<Rightarrow> request \<Rightarrow> effects" where
  "post_summarize v w req =
     (case v of
        ServerJs \<Rightarrow> summarize_single_todo_server w (userId_middleware req)
      | Part000 \<Rightarrow> summarize_single_todo_part_000 w (userId_middleware req)
      | Part001 \<Rightarrow> summarize_single_todo_part_001 w (userId_middleware req))"

definition post_slack :: "variant \<Rightarrow> world \<Rightarrow> request \<Rightarrow> effects" where
  "post_slack v w req =
     (case v of
        ServerJs \<Rightarrow> send_single_todo_to_slack_axios w (userId_middleware req)
      | Part000 \<Rightarrow> send_single_todo_to_slack_part_000 w (userId_middleware req)
      | Part001 \<Rightarrow> send_single_todo_to_slack_axios w (userId_middleware req))"

section \<open>Vocabulary of the properties\<close>

text \<open>A response has a top-level key.\<close>

definition has_key :: "string \<Rightarrow> http_response \<Rightarrow> bool" where
  "has_key k r = (case body r of None \<Rightarrow> False | Some kvs \<Rightarrow> k \<in> set (map fst kvs))"



text \<open>The \<^verbatim>\<open>text\<close> member of the payload of a POST, as a string.\<close>

definition posted_text :: "outbound_call \<Rightarrow> string" where
  "posted_text c =
     (case c of
        FetchPost url payload \<Rightarrow> to_string (opt_member ''text'' (Some payload))
      | AxiosPost url payload \<Rightarrow> to_string (opt_member ''text'' (Some payload))
      | GenerateContent prompt \<Rightarrow> [])"



subsection \<open>Sample inputs\<close>

text \<open>The provider's envelope around one part: \<^verbatim>\<open>{candidates: [{content: {parts: [part]}}]}\<close>.\<close>

definition gemini_reply :: "json \<Rightarrow> json" where
  "gemini_reply part =
     JObj [(''candidates'', JArr [JObj [(''content'', JObj [(''parts'', JArr [part])])]])]"

text \<open>A configured service whose providers all answer with success.\<close>

definition sample_world :: world where
  "sample_world =
     \<lparr>GEMINI_API_KEY = ''key'',
      SLACK_WEBHOOK_URL = Some ''https://hooks.slack.test/services/T'',
      gt0 = (\<lambda>j. False),
      llm_http = HttpResponse 200 (gemini_reply (JObj [(''text'', JStr ''Buy milk by Jan 1.'')])),
      llm_sdk = Inr ''Buy milk by Jan 1.'',
      slack_http = HttpResponse 200 (JStr ''ok''),
      slack_fetch = FetchResponse 200 (Inr ''ok'')\<rparr>"

definition milk_body :: todo_body where
  "milk_body = \<lparr>text = Some ''Buy milk'', dueDate = Some ''2024-01-01'', dueTime = None,
                 summary = None, userId = Some ''u1''\<rparr>"

definition no_text_body :: todo_body where
  "no_text_body = \<lparr>text = None, dueDate = None, dueTime = None, summary = None,
                    userId = Some ''u1''\<rparr>"

definition request_of :: "(string \<times> string) list \<Rightarrow> todo_body \<Rightarrow> request" where
  "request_of hs b = \<lparr>req_headers = map_of hs, req_body = b, req_userId = None\<rparr>"

definition milk_request :: request where
  "milk_request = request_of [(''user-agent'', ''curl/8.0'')] milk_body"

section \<open>Effects of the building blocks\<close>

lemma effects_simps [simp]:
  "outbound no_effects = []"
  "responses no_effects = []"
  "outbound (call_out c fx) = outbound fx @ [c]"
  "responses (call_out c fx) = responses fx"
  by (simp_all add: no_effects_def call_out_def)

lemma stringify_simps [simp]:
  "stringify_members [] = []"
  "stringify_members ((k, Some j) # kvs) = (k, j) # stringify_members kvs"
  "stringify_members ((k, None) # kvs) = stringify_members kvs"
  by (simp_all add: stringify_members_def)

lemma or_uncaught_simps [simp]:
  "or_uncaught (Inr fx') fx = fx'"
  "or_uncaught (Inl e) fx = fx"
  by (simp_all add: or_uncaught_def)

lemma then_js_simps [simp]:
  "then_js (Inr x) f = f x"
  "then_js (Inl e) f = Inl e"
  by (simp_all add: then_js_def)

text \<open>A status from 100 to 999 is sent; the literal codes of the handlers carry their body.\<close>

lemma res_json_sent:
  "100 \<le> code \<Longrightarrow> code \<le> 999 \<Longrightarrow>
   res_json code obj fx =
     Inr (fx\<lparr>responses := responses fx @
            [\<lparr>status = code,
              body = (if bodiless code then None else Some (stringify_members obj))\<rparr>]\<rparr>)"
  by (simp add: res_json_def)

lemma res_json_refused:
  "code < 100 \<or> 999 < code \<Longrightarrow> res_json code obj fx = Inl (range_error code)"
  by (simp add: res_json_def)

lemma res_json_literal [simp]:
  "res_json 200 obj fx = Inr (fx\<lparr>responses := responses fx @ [\<lparr>status = 200, body = Some (stringify_members obj)\<rparr>]\<rparr>)"
  "res_json 400 obj fx = Inr (fx\<lparr>responses := responses fx @ [\<lparr>status = 400, body = Some (stringify_members obj)\<rparr>]\<rparr>)"
  "res_json 500 obj fx = Inr (fx\<lparr>responses := responses fx @ [\<lparr>status = 500, body = Some (stringify_members obj)\<rparr>]\<rparr>)"
  by (simp_all add: res_json_def bodiless_def)

lemma summary_simps [simp]:
  "summary_failed e fx =
     Inr (fx\<lparr>responses := responses fx @
       [\<lparr>status = 500,
         body = Some [(''error'', JStr (''Error generating summary for single todo: '' @ llm_error_text e))]\<rparr>]\<rparr>)"
  "summary_ok s fx =
     Inr (fx\<lparr>responses := responses fx @
       [\<lparr>status = 200,
         body = Some ((''message'', JStr ''Single todo summary generated successfully.'')
                      # (case s of None \<Rightarrow> [] | Some j \<Rightarrow> [(''summary'', j)]))\<rparr>]\<rparr>)"
  by (simp_all add: summary_ok_def summary_failed_def split: option.splits)

lemma slack_catch_fetch_sent [simp]:
  "slack_catch_fetch fx =
     Inr (fx\<lparr>responses := responses fx @
       [\<lparr>status = 500,
         body = Some [(''error'', JStr ''Internal server error: Could not send message to Slack.'')]\<rparr>]\<rparr>)"
  by (simp add: slack_catch_fetch_def)

lemma middleware_keeps [simp]:
  "req_body (userId_middleware r) = req_body r"
  "req_headers (userId_middleware r) = req_headers r"
  by (simp_all add: userId_middleware_def)

text \<open>axios resolves only with a 2xx status and rejects only with another one.\<close>

lemma axios_post_resolved:
  "axios_post out = Inr (st, d) \<Longrightarrow> is_2xx st"
  by (auto simp: axios_post_def split: http_outcome.splits if_splits)

lemma axios_post_rejected:
  "axios_post out = Inl e \<Longrightarrow> \<not> is_2xx (err_status_or_500 e)"
  by (auto simp: axios_post_def err_status_or_500_def is_2xx_def split: http_outcome.splits if_splits)

lemma plain_error_status [simp]: "err_status_or_500 (plain_error m) = 500"
  by (simp add: plain_error_def err_status_or_500_def)

lemma range_error_status [simp]: "err_status_or_500 (range_error code) = 500"
  by (simp add: range_error_def err_status_or_500_def)

lemma not_2xx_not_200: "\<not> is_2xx st \<Longrightarrow> st \<noteq> 200"
  by (auto simp: is_2xx_def)

text \<open>Of the statuses that are not 2xx, 304 and those below 200 are sent without a body.\<close>

lemma bodiless_not_2xx: "\<not> is_2xx st \<Longrightarrow> bodiless st \<longleftrightarrow> st = 304 \<or> st < 200"
  by (auto simp: is_2xx_def bodiless_def)

text \<open>
  The \<^verbatim>\<open>catch\<close> block of the axios variants sends at most one response, whose
  status is not 200 and which, when it has a body, is the error envelope.
\<close>

lemma slack_catch_axios_cases:
  "\<not> is_2xx (err_status_or_500 e) \<Longrightarrow>
   or_uncaught (slack_catch_axios e fx) fx = fx \<or>
   (\<exists>r. or_uncaught (slack_catch_axios e fx) fx = fx\<lparr>responses := responses fx @ [r]\<rparr> \<and>
        status r = err_status_or_500 e \<and>
        (body r = None \<and> (status r = 304 \<or> status r < 200) \<or>
         (\<exists>m. body r = Some [(''error'', JStr m)] \<and> m \<noteq> [])))"
  by (auto simp: slack_catch_axios_def res_json_def bodiless_not_2xx)

section \<open>What each handler sends\<close>

lemma summarize_server_effects:
  "summarize_single_todo_server w req =
     \<lparr>outbound = [AxiosPost (gemini_url (GEMINI_API_KEY w)) (gemini_payload (prompt_server (req_body req)))],
      responses =
        (case summary_of_llm (gt0 w) (Some (JStr fallback_summary)) (llm_http w) of
           Inr s \<Rightarrow> [\<lparr>status = 200, body = Some ((''message'', JStr ''Single todo summary generated successfully.'')
                         # (case s of None \<Rightarrow> [] | Some j \<Rightarrow> [(''summary'', j)]))\<rparr>]
         | Inl e \<Rightarrow> [\<lparr>status = 500, body = Some [(''error'', JStr (''Error generating summary for single todo: '' @ llm_error_text e))]\<rparr>])\<rparr>"
  by (cases "summary_of_llm (gt0 w) (Some (JStr fallback_summary)) (llm_http w)")
     (simp_all add: summarize_single_todo_server_def Let_def call_out_def no_effects_def)

lemma summarize_part_001_effects:
  "summarize_single_todo_part_001 w req =
     \<lparr>outbound = [AxiosPost (gemini_url (GEMINI_API_KEY w)) (gemini_payload (prompt_part_001 (req_body req)))],
      responses =
        (case summary_of_llm (gt0 w) (Some (JStr [])) (llm_http w) of
           Inr s \<Rightarrow> [\<lparr>status = 200, body = Some ((''message'', JStr ''Single todo summary generated successfully.'')
                         # (case s of None \<Rightarrow> [] | Some j \<Rightarrow> [(''summary'', j)]))\<rparr>]
         | Inl e \<Rightarrow> [])\<rparr>"
  by (cases "summary_of_llm (gt0 w) (Some (JStr [])) (llm_http w)")
     (simp_all add: summarize_single_todo_part_001_def Let_def call_out_def no_effects_def)

lemma summarize_part_000_effects:
  "summarize_single_todo_part_000 w req =
     \<lparr>outbound = [GenerateContent (prompt_part_000 (req_body req))],
      responses =
        (case llm_sdk w of
           Inr s \<Rightarrow> [\<lparr>status = 200, body = Some [(''message'', JStr ''Single todo summary generated successfully.''),
                                                  (''summary'', JStr s)]\<rparr>]
         | Inl e \<Rightarrow> [\<lparr>status = 500, body = Some [(''error'', JStr (''Error generating summary for single todo: '' @ llm_error_text e))]\<rparr>])\<rparr>"
  by (cases "llm_sdk w")
     (simp_all add: summarize_single_todo_part_000_def Let_def call_out_def no_effects_def)

lemma summarize_server_responses:
  "responses (summarize_single_todo_server w req) =
     (case summary_of_llm (gt0 w) (Some (JStr fallback_summary)) (llm_http w) of
        Inr s \<Rightarrow> [\<lparr>status = 200, body = Some ((''message'', JStr ''Single todo summary generated successfully.'')
                      # (case s of None \<Rightarrow> [] | Some j \<Rightarrow> [(''summary'', j)]))\<rparr>]
      | Inl e \<Rightarrow> [\<lparr>status = 500, body = Some [(''error'', JStr (''Error generating summary for single todo: '' @ llm_error_text e))]\<rparr>])"
  by (simp add: summarize_server_effects)

lemma summarize_part_001_responses:
  "responses (summarize_single_todo_part_001 w req) =
     (case summary_of_llm (gt0 w) (Some (JStr [])) (llm_http w) of
        Inr s \<Rightarrow> [\<lparr>status = 200, body = Some ((''message'', JStr ''Single todo summary generated successfully.'')
                      # (case s of None \<Rightarrow> [] | Some j \<Rightarrow> [(''summary'', j)]))\<rparr>]
      | Inl e \<Rightarrow> [])"
  by (simp add: summarize_part_001_effects)

lemma summarize_part_000_responses:
  "responses (summarize_single_todo_part_000 w req) =
     (case llm_sdk w of
        Inr s \<Rightarrow> [\<lparr>status = 200, body = Some [(''message'', JStr ''Single todo summary generated successfully.''),
                                               (''summary'', JStr s)]\<rparr>]
      | Inl e \<Rightarrow> [\<lparr>status = 500, body = Some [(''error'', JStr (''Error generating summary for single todo: '' @ llm_error_text e))]\<rparr>])"
  by (simp add: summarize_part_000_effects)

lemma summarize_outbound:
  "outbound (post_summarize v w req) =
     [case v of
        ServerJs \<Rightarrow> AxiosPost (gemini_url (GEMINI_API_KEY w)) (gemini_payload (prompt_server (req_body req)))
      | Part000 \<Rightarrow> GenerateContent (prompt_part_000 (req_body req))
      | Part001 \<Rightarrow> AxiosPost (gemini_url (GEMINI_API_KEY w)) (gemini_payload (prompt_part_001 (req_body req)))]"
  by (cases v)
     (simp_all add: post_summarize_def summarize_server_effects summarize_part_000_effects
        summarize_part_001_effects)

lemma final_summary_responses [simp]: "responses (snd (final_summary w b)) = []"
  by (simp add: final_summary_def Let_def split: sum.splits)

lemma final_summary_outbound:
  "outbound (snd (final_summary w b)) =
     (if given (summary b) then [] else [GenerateContent (slack_prompt b)])"
  by (simp add: final_summary_def Let_def split: sum.splits)

text \<open>
  The Slack handler of the axios variants sends at most one response; the one of
  \<^verbatim>\<open>part_000\<close> sends exactly one. A response with status 200 is the success
  envelope; any other one is the error envelope, or has no body at all.
\<close>

lemma slack_axios_responses:
  "responses (send_single_todo_to_slack_axios w req) = [] \<or>
   (\<exists>r. responses (send_single_todo_to_slack_axios w req) = [r] \<and>
       (status r = 200 \<and> body r = Some [(''message'', JStr ''Todo sent to Slack successfully!'')] \<or>
        status r \<noteq> 200 \<and>
          (body r = None \<and> (status r = 304 \<or> status r < 200) \<or>
           (\<exists>m. body r = Some [(''error'', JStr m)] \<and> m \<noteq> []))))"
proof (cases "webhook_unconfigured (SLACK_WEBHOOK_URL w)")
  case True
  then show ?thesis
    by (simp add: send_single_todo_to_slack_axios_def slack_catch_axios_def)
next
  case False
  show ?thesis
  proof (cases "axios_post (slack_http w)")
    case (Inl e)
    from axios_post_rejected [OF Inl] have n: "\<not> is_2xx (err_status_or_500 e)" .
    define fx where "fx = call_out (AxiosPost (tpl (SLACK_WEBHOOK_URL w))
                             (JObj [(''text'', JStr (slack_text_axios (req_body req)))])) no_effects"
    have h: "send_single_todo_to_slack_axios w req = or_uncaught (slack_catch_axios e fx) fx"
      using False Inl by (simp add: send_single_todo_to_slack_axios_def Let_def fx_def)
    have e: "responses fx = []"
      by (simp add: fx_def)
    from slack_catch_axios_cases [OF n, of fx] not_2xx_not_200 [OF n] show ?thesis
      unfolding h using e by auto
  next
    case (Inr p)
    obtain st d where p: "p = (st, d)" by (cases p)
    from axios_post_resolved Inr p have "is_2xx st" by simp
    with False Inr p show ?thesis
      by (simp add: send_single_todo_to_slack_axios_def Let_def is_2xx_def)
  qed
qed

lemma fetch_rejection_cases:
  assumes "\<not> is_2xx st" and "responses fx2 = []"
  shows "\<exists>r. responses
            (case then_js bodyText (\<lambda>errorData.
                    res_json st [(''error'', Some (JStr (''Failed to send message to Slack: ''
                                                         @ errorData)))] fx2) of
               Inr fx' \<Rightarrow> fx'
             | Inl e \<Rightarrow> or_uncaught (slack_catch_fetch fx2) fx2) = [r] \<and>
           status r \<noteq> 200 \<and>
           (body r = None \<and> (status r = 304 \<or> status r < 200) \<or>
            (\<exists>m. body r = Some [(''error'', JStr m)] \<and> m \<noteq> []))"
proof (cases bodyText)
  case (Inl e)
  with assms show ?thesis by simp
next
  case (Inr errorData)
  show ?thesis
  proof (cases "st < 100 \<or> 999 < st")
    case True
    with Inr assms show ?thesis by (simp add: res_json_def)
  next
    case False
    with Inr assms not_2xx_not_200 [OF assms(1)] show ?thesis
      by (simp add: res_json_def bodiless_not_2xx)
  qed
qed

lemma slack_part_000_responses:
  "\<exists>r. responses (send_single_todo_to_slack_part_000 w req) = [r] \<and>
       (status r = 200 \<and> body r = Some [(''message'', JStr ''Todo summary sent to Slack successfully!'')] \<or>
        status r \<noteq> 200 \<and>
          (body r = None \<and> (status r = 304 \<or> status r < 200) \<or>
           (\<exists>m. body r = Some [(''error'', JStr m)] \<and> m \<noteq> [])))"
proof (cases "given (text (req_body req))")
  case False
  then show ?thesis
    by (simp add: send_single_todo_to_slack_part_000_def Let_def)
next
  case True
  obtain s fx where fs: "final_summary w (req_body req) = (s, fx)"
    by (cases "final_summary w (req_body req)")
  have r: "responses fx = []"
    using final_summary_responses [of w "req_body req"] fs by simp
  show ?thesis
  proof (cases "webhook_unconfigured (SLACK_WEBHOOK_URL w)")
    case u: True
    with True fs r show ?thesis
      by (simp add: send_single_todo_to_slack_part_000_def Let_def)
  next
    case u: False
    let ?fx2 = "call_out (FetchPost (tpl (SLACK_WEBHOOK_URL w))
        (slack_blocks_message (req_body req)
           (or_default (req_headers req ''user-agent'') ''Unknown User-Agent'') s)) fx"
    have r2: "responses ?fx2 = []"
      using r by simp
    show ?thesis
    proof (cases "slack_fetch w")
      case (FetchFailed e)
      with True fs u r show ?thesis
        by (simp add: send_single_todo_to_slack_part_000_def Let_def)
    next
      case (FetchResponse st bodyText)
      show ?thesis
      proof (cases "is_2xx st")
        case ok: True
        with True fs u r FetchResponse show ?thesis
          by (simp add: send_single_todo_to_slack_part_000_def Let_def)
      next
        case ok: False
        have h: "send_single_todo_to_slack_part_000 w req =
            (case then_js bodyText (\<lambda>errorData.
                    res_json st [(''error'', Some (JStr (''Failed to send message to Slack: ''
                                                         @ errorData)))] ?fx2) of
               Inr fx' \<Rightarrow> fx'
             | Inl e \<Rightarrow> or_uncaught (slack_catch_fetch ?fx2) ?fx2)"
          using True fs u FetchResponse ok
          by (simp add: send_single_todo_to_slack_part_000_def Let_def del: slack_catch_fetch_sent)
        from fetch_rejection_cases [OF ok r2, of bodyText]
        obtain r' where "responses (send_single_todo_to_slack_part_000 w req) = [r']"
          and "status r' \<noteq> 200"
          and "body r' = None \<and> (status r' = 304 \<or> status r' < 200) \<or>
               (\<exists>m. body r' = Some [(''error'', JStr m)] \<and> m \<noteq> [])"
          unfolding h by blast
        then show ?thesis by blast
      qed
    qed
  qed
qed

text \<open>
  The outbound calls of the Slack handlers: sending a response adds none, so they are
  fixed by the request and the configuration alone.
\<close>

lemma slack_axios_outbound:
  "outbound (send_single_todo_to_slack_axios w req) =
     (if webhook_unconfigured (SLACK_WEBHOOK_URL w) then []
      else [AxiosPost (tpl (SLACK_WEBHOOK_URL w))
              (JObj [(''text'', JStr (slack_text_axios (req_body req)))])])"
proof (cases "webhook_unconfigured (SLACK_WEBHOOK_URL w)")
  case True
  then show ?thesis
    by (simp add: send_single_todo_to_slack_axios_def slack_catch_axios_def res_json_def)
next
  case False
  let ?fx = "call_out (AxiosPost (tpl (SLACK_WEBHOOK_URL w))
               (JObj [(''text'', JStr (slack_text_axios (req_body req)))])) no_effects"
  have c: "outbound (or_uncaught (slack_catch_axios e ?fx) ?fx) = outbound ?fx" for e
    by (simp add: slack_catch_axios_def res_json_def)
  have s: "outbound (case res_json code obj ?fx of Inr fx' \<Rightarrow> fx'
                     | Inl e \<Rightarrow> or_uncaught (slack_catch_axios e ?fx) ?fx) = outbound ?fx" for code obj
    by (simp add: slack_catch_axios_def res_json_def)
  show ?thesis
  proof (cases "axios_post (slack_http w)")
    case (Inl e)
    with False c [of e] show ?thesis
      by (simp add: send_single_todo_to_slack_axios_def Let_def)
  next
    case (Inr p)
    obtain st d where p: "p = (st, d)" by (cases p)
    from False Inr p s show ?thesis
      by (simp add: send_single_todo_to_slack_axios_def Let_def)
  qed
qed

lemma fetch_try_outbound:
  "outbound (case (if c then res_json 200 obj fx2
                   else then_js bodyText (\<lambda>errorData. res_json st (f errorData) fx2)) of
               Inr fx' \<Rightarrow> fx'
             | Inl e \<Rightarrow> or_uncaught (slack_catch_fetch fx2) fx2) = outbound fx2"
  by (cases bodyText) (simp_all add: res_json_def)

lemma slack_part_000_outbound:
  "outbound (send_single_todo_to_slack_part_000 w req) =
     (if \<not> given (text (req_body req)) then []
      else outbound (snd (final_summary w (req_body req))) @
           (if webhook_unconfigured (SLACK_WEBHOOK_URL w) then []
            else [FetchPost (tpl (SLACK_WEBHOOK_URL w))
                    (slack_blocks_message (req_body req)
                       (or_default (req_headers req ''user-agent'') ''Unknown User-Agent'')
                       (fst (final_summary w (req_body req))))]))"
proof (cases "given (text (req_body req))")
  case False
  then show ?thesis
    by (simp add: send_single_todo_to_slack_part_000_def Let_def)
next
  case True
  obtain s fx where fs: "final_summary w (req_body req) = (s, fx)"
    by (cases "final_summary w (req_body req)")
  show ?thesis
  proof (cases "webhook_unconfigured (SLACK_WEBHOOK_URL w)")
    case u: True
    with True fs show ?thesis
      by (simp add: send_single_todo_to_slack_part_000_def Let_def)
  next
    case u: False
    show ?thesis
    proof (cases "slack_fetch w")
      case (FetchFailed e)
      with True fs u show ?thesis
        by (simp add: send_single_todo_to_slack_part_000_def Let_def)
    next
      case (FetchResponse st bodyText)
      with True fs u show ?thesis
        by (simp add: send_single_todo_to_slack_part_000_def Let_def fetch_try_outbound
              del: slack_catch_fetch_sent res_json_literal)
    qed
  qed
qed

text \<open>
  The summarize handlers of \<^verbatim>\<open>server.js\<close> and \<^verbatim>\<open>part_000\<close> and the Slack handler of
  \<^verbatim>\<open>part_000\<close> send exactly one response, whatever the providers do.
\<close>

lemma post_summarize_responds_once:
  "v \<noteq> Part001 \<Longrightarrow> length (responses (post_summarize v w req)) = 1"
  by (cases v)
     (simp_all add: post_summarize_def summarize_server_responses summarize_part_000_responses
        split: sum.splits)

lemma post_slack_part_000_responds_once:
  "length (responses (post_slack Part000 w req)) = 1"
  using slack_part_000_responses [of w "userId_middleware req"]
  by (auto simp: post_slack_def)

section \<open>POST /summarize-single-todo: calls and responses\<close>





section \<open>POST /send-single-todo-to-slack: the required text\<close>

text \<open>In \<^verbatim>\<open>part_000\<close> a request without a truthy text is refused before anything else.\<close>

lemma slack_part_000_requires_text:
  "\<not> given (text (req_body req)) \<Longrightarrow>
   post_slack Part000 w req =
     \<lparr>outbound = [],
      responses = [\<lparr>status = 400, body = Some [(''error'', JStr ''Todo text is required.'')]\<rparr>]\<rparr>"
  by (simp add: post_slack_def send_single_todo_to_slack_part_000_def no_effects_def)

text \<open>
  C2: a request to POST /send-single-todo-to-slack without text must be answered with
  HTTP 400 and \<^verbatim>\<open>{"error": "Todo text is required."}\<close>, with no outbound call.
  \<^verbatim>\<open>part_000\<close> does so. \<^verbatim>\<open>server.js\<close> and \<^verbatim>\<open>part_001\<close> have no such check: on a body
  without text they post a message whose task is "undefined" to the webhook and answer
  HTTP 200.
\<close>

theorem slack_posts_without_text:
  "text no_text_body = None \<and>
   post_slack ServerJs sample_world (request_of [] no_text_body) =
     \<lparr>outbound = [AxiosPost ''https://hooks.slack.test/services/T''
                    (JObj [(''text'', JStr ''*New Todo Alert for User u1*:\<newline>*Task*: undefined\<newline>_No summary provided._\<newline>'')])],
      responses = [\<lparr>status = 200, body = Some [(''message'', JStr ''Todo sent to Slack successfully!'')]\<rparr>]\<rparr> \<and>
   post_slack Part001 sample_world (request_of [] no_text_body) =
     post_slack ServerJs sample_world (request_of [] no_text_body) \<and>
   post_slack Part000 sample_world (request_of [] no_text_body) =
     \<lparr>outbound = [],
      responses = [\<lparr>status = 400, body = Some [(''error'', JStr ''Todo text is required.'')]\<rparr>]\<rparr>"
  by code_simp

section \<open>Errors at the handler boundary\<close>

text \<open>
  C3: every outcome of the outbound calls must end in exactly one response, the error
  envelope on failure. The \<^verbatim>\<open>catch\<close> block of the summarize handler of \<^verbatim>\<open>part_001\<close>
  only logs: when the LLM call is rejected (the transport fails, or the provider answers
  503) no response is sent at all, where \<^verbatim>\<open>server.js\<close> answers HTTP 500 with the error
  envelope.
\<close>

theorem part_001_catch_sends_nothing:
  "responses (post_summarize Part001 (sample_world\<lparr>llm_http := NetworkError ''socket hang up''\<rparr>)
      milk_request) = [] \<and>
   responses (post_summarize Part001
      (sample_world\<lparr>llm_http := HttpResponse 503 (JObj [(''error'', JObj [(''message'', JStr ''overloaded'')])])\<rparr>)
      milk_request) = [] \<and>
   responses (post_summarize ServerJs (sample_world\<lparr>llm_http := NetworkError ''socket hang up''\<rparr>)
      milk_request) =
     [\<lparr>status = 500,
       body = Some [(''error'', JStr ''Error generating summary for single todo: socket hang up'')]\<rparr>]"
  by code_simp

section \<open>The fallback summary\<close>

text \<open>In \<^verbatim>\<open>server.js\<close> a false guard gives the static fallback.\<close>

lemma server_fallback_when_guard_fails:
  "llm_http w = HttpResponse st d \<Longrightarrow> is_2xx st \<Longrightarrow> candidate_guard (gt0 w) d = Inr False \<Longrightarrow>
   responses (post_summarize ServerJs w req) =
     [\<lparr>status = 200,
       body = Some [(''message'', JStr ''Single todo summary generated successfully.''),
                    (''summary'', JStr fallback_summary)]\<rparr>]"
  by (simp add: post_summarize_def summarize_server_responses summary_of_llm_def axios_post_def)

text \<open>
  C4: when the nested fields \<^verbatim>\<open>candidates[0].content.parts[0].text\<close> are absent from
  the provider's response, the answer must be HTTP 200 with the static fallback summary.
  On the response \<^verbatim>\<open>{}\<close>, \<^verbatim>\<open>part_001\<close> answers with the empty summary, where
  \<^verbatim>\<open>server.js\<close> answers with the fallback. On a response whose first part has no
  \<^verbatim>\<open>text\<close>, the guard of \<^verbatim>\<open>server.js\<close> holds, since it stops at the length of
  \<^verbatim>\<open>parts\<close>, and the answer has no summary at all.
\<close>

theorem missing_fields_without_fallback:
  "responses (post_summarize Part001 (sample_world\<lparr>llm_http := HttpResponse 200 (JObj [])\<rparr>) milk_request) =
     [\<lparr>status = 200,
       body = Some [(''message'', JStr ''Single todo summary generated successfully.''),
                    (''summary'', JStr [])]\<rparr>] \<and>
   responses (post_summarize ServerJs (sample_world\<lparr>llm_http := HttpResponse 200 (JObj [])\<rparr>) milk_request) =
     [\<lparr>status = 200,
       body = Some [(''message'', JStr ''Single todo summary generated successfully.''),
                    (''summary'', JStr ''Could not generate a meaningful summary for this todo.'')]\<rparr>] \<and>
   responses (post_summarize ServerJs
       (sample_world\<lparr>llm_http := HttpResponse 200 (gemini_reply (JObj []))\<rparr>) milk_request) =
     [\<lparr>status = 200,
       body = Some [(''message'', JStr ''Single todo summary generated successfully.'')]\<rparr>]"
  by code_simp

section \<open>POST /send-single-todo-to-slack: the summary sub-call and the webhook\<close>

text \<open>
  C5, as the specification states it, fails: with the summary omitted and the
  summarization sub-call failing, \<^verbatim>\<open>part_000\<close> performs no webhook POST when the
  webhook URL is not configured; it answers HTTP 500 after the LLM call.
\<close>

theorem unconfigured_webhook_counterexample:
  "given (text (req_body milk_request)) \<and> \<not> given (summary (req_body milk_request)) \<and>
   post_slack Part000
     (sample_world\<lparr>SLACK_WEBHOOK_URL := None, llm_sdk := Inl (plain_error ''quota exceeded'')\<rparr>)
     milk_request =
     \<lparr>outbound = [GenerateContent (slack_prompt milk_body)],
      responses = [\<lparr>status = 500,
                    body = Some [(''error'', JStr ''Internal server error: Could not send message to Slack.'')]\<rparr>]\<rparr>"
  by code_simp

text \<open>
  C5, amended: for every request to POST /send-single-todo-to-slack of \<^verbatim>\<open>part_000\<close>
  (the variant with the summarization sub-call) with a non-empty text and the summary
  omitted, if the sub-call fails and the webhook URL is configured, the handler still
  performs the webhook POST, right after the LLM call, and the posted message embeds the
  fallback string \<^verbatim>\<open>Could not generate summary for: "<text>".\<close>, which contains the
  text verbatim.
\<close>

theorem fallback_summary_still_posted:
  assumes "text (req_body req) = Some t" and "t \<noteq> []"
    and "\<not> given (summary (req_body req))"
    and "llm_sdk w = Inl e"
    and "\<not> webhook_unconfigured (SLACK_WEBHOOK_URL w)"
  shows "\<exists>post. outbound (post_slack Part000 w req) = [GenerateContent (slack_prompt (req_body req)), post] \<and>
           post = FetchPost (tpl (SLACK_WEBHOOK_URL w))
                    (slack_blocks_message (req_body req)
                       (or_default (req_headers req ''user-agent'') ''Unknown User-Agent'')
                       (summary_fallback_for (req_body req))) \<and>
           sublist (summary_fallback_for (req_body req)) (posted_text post) \<and>
           sublist t (summary_fallback_for (req_body req))"
proof -
  have g: "given (text (req_body req))"
    using assms(1,2) by (simp add: given_def field_val_def)
  have fs: "final_summary w (req_body req) =
      (summary_fallback_for (req_body req), call_out (GenerateContent (slack_prompt (req_body req))) no_effects)"
    using assms(3,4) by (simp add: final_summary_def Let_def)
  have out: "outbound (post_slack Part000 w req) =
      [GenerateContent (slack_prompt (req_body req)),
       FetchPost (tpl (SLACK_WEBHOOK_URL w))
         (slack_blocks_message (req_body req)
            (or_default (req_headers req ''user-agent'') ''Unknown User-Agent'')
            (summary_fallback_for (req_body req)))]"
    using g fs assms(5) by (simp add: post_slack_def slack_part_000_outbound)
  have "posted_text (FetchPost (tpl (SLACK_WEBHOOK_URL w))
         (slack_blocks_message (req_body req)
            (or_default (req_headers req ''user-agent'') ''Unknown User-Agent'')
            (summary_fallback_for (req_body req)))) =
      (''*New Todo Update from '' @ tpl (userId (req_body req)) @ '' (''
         @ or_default (req_headers req ''user-agent'') ''Unknown User-Agent'' @ ''):*\<newline>'')
      @ summary_fallback_for (req_body req)"
    by (simp add: posted_text_def slack_blocks_message_def to_string_def)
  then have emb: "sublist (summary_fallback_for (req_body req))
      (posted_text (FetchPost (tpl (SLACK_WEBHOOK_URL w))
         (slack_blocks_message (req_body req)
            (or_default (req_headers req ''user-agent'') ''Unknown User-Agent'')
            (summary_fallback_for (req_body req)))))"
    by (simp only: sublist_append_leftI)
  have fb: "summary_fallback_for (req_body req) =
      (''Could not generate summary for: '' @ [CHR 0x22]) @ t @ [CHR 0x22, CHR ''.'']"
    using assms(1) by (simp add: summary_fallback_for_def tpl_def field_val_def to_string_def)
  have inside: "sublist t (summary_fallback_for (req_body req))"
    by (subst fb) (rule sublist_appendI)
  from out emb inside show ?thesis by blast
qed

theorem fallback_summary_still_posted_witness:
  \<open>text (req_body milk_request) = Some ''Buy milk'' \<and> ''Buy milk'' \<noteq> [] \<and>
   \<not> given (summary (req_body milk_request)) \<and>
   llm_sdk (sample_world\<lparr>llm_sdk := Inl (plain_error ''quota exceeded'')\<rparr>) = Inl (plain_error ''quota exceeded'') \<and>
   \<not> webhook_unconfigured (SLACK_WEBHOOK_URL (sample_world\<lparr>llm_sdk := Inl (plain_error ''quota exceeded'')\<rparr>)) \<and>
   (\<exists>post. outbound (post_slack Part000 (sample_world\<lparr>llm_sdk := Inl (plain_error ''quota exceeded'')\<rparr>) milk_request) =
             [GenerateContent (slack_prompt milk_body), post] \<and>
           sublist ''Could not generate summary for: "Buy milk".'' (posted_text post) \<and>
           sublist ''Buy milk'' ''Could not generate summary for: "Buy milk".'')\<close>
proof -
  let ?w = "sample_world\<lparr>llm_sdk := Inl (plain_error ''quota exceeded'')\<rparr>"
  have h1: "text (req_body milk_request) = Some ''Buy milk''" by code_simp
  have h2: "''Buy milk'' \<noteq> []" by simp
  have h3: "\<not> given (summary (req_body milk_request))" by code_simp
  have h4: "llm_sdk ?w = Inl (plain_error ''quota exceeded'')" by simp
  have h5: "\<not> webhook_unconfigured (SLACK_WEBHOOK_URL ?w)" by code_simp
  have b: "req_body milk_request = milk_body" by code_simp
  have f: \<open>summary_fallback_for milk_body = ''Could not generate summary for: "Buy milk".''\<close> by code_simp
  from fallback_summary_still_posted [OF h1 h2 h3 h4 h5]
  have \<open>\<exists>post. outbound (post_slack Part000 ?w milk_request) =
             [GenerateContent (slack_prompt milk_body), post] \<and>
           sublist ''Could not generate summary for: "Buy milk".'' (posted_text post) \<and>
           sublist ''Buy milk'' ''Could not generate summary for: "Buy milk".''\<close>
    unfolding b f by blast
  with h1 h2 h3 h4 h5 show ?thesis by blast
qed

section \<open>POST /send-single-todo-to-slack: the webhook URL\<close>




section \<open>POST /send-single-todo-to-slack: a rejected webhook POST\<close>

text \<open>
  In \<^verbatim>\<open>part_000\<close>, a webhook response with a status that is not 2xx and that Express
  sends with a body is reported with its status and with the text of its body.
\<close>

lemma part_000_reports_body:
  assumes "\<not> is_2xx st" and "200 \<le> st" and "st \<le> 999" and "st \<noteq> 304"
    and "\<not> webhook_unconfigured (SLACK_WEBHOOK_URL w)"
    and "given (text (req_body req))"
    and "slack_fetch w = FetchResponse st (Inr errorData)"
  shows "responses (post_slack Part000 w req) =
           [\<lparr>status = st,
             body = Some [(''error'', JStr (''Failed to send message to Slack: '' @ errorData))]\<rparr>]"
proof -
  obtain s fx where fs: "final_summary w (req_body req) = (s, fx)"
    by (cases "final_summary w (req_body req)")
  have r: "responses fx = []"
    using final_summary_responses [of w "req_body req"] fs by simp
  have b: "\<not> bodiless st"
    using assms(1,2,4) by (auto simp: bodiless_def is_2xx_def)
  from assms fs r b show ?thesis
    by (simp add: post_slack_def send_single_todo_to_slack_part_000_def Let_def res_json_def)
qed

text \<open>
  C7: when the webhook POST yields a non-2xx response, the caller must get the provider's
  status code and an error string that includes diagnostic text from the provider's
  response body. Slack rejects with 404 and the plain-text body \<^verbatim>\<open>no_service\<close>:
  \<^verbatim>\<open>part_000\<close> answers 404 with "Failed to send message to Slack: no_service", but
  \<^verbatim>\<open>server.js\<close> and \<^verbatim>\<open>part_001\<close> read only \<^verbatim>\<open>response.data.error\<close>, which a text body
  does not have, and answer 404 with the message of the axios error, in which nothing
  of the body appears.
\<close>

theorem plain_text_body_not_reported:
  "responses (post_slack ServerJs (sample_world\<lparr>slack_http := HttpResponse 404 (JStr ''no_service'')\<rparr>)
      milk_request) =
     [\<lparr>status = 404,
       body = Some [(''error'', JStr ''Internal server error: Request failed with status code 404'')]\<rparr>] \<and>
   responses (post_slack Part001 (sample_world\<lparr>slack_http := HttpResponse 404 (JStr ''no_service'')\<rparr>)
      milk_request) =
     [\<lparr>status = 404,
       body = Some [(''error'', JStr ''Internal server error: Request failed with status code 404'')]\<rparr>] \<and>
   \<not> sublist ''no_service'' ''Internal server error: Request failed with status code 404'' \<and>
   responses (post_slack Part000 (sample_world\<lparr>slack_fetch := FetchResponse 404 (Inr ''no_service'')\<rparr>)
      milk_request) =
     [\<lparr>status = 404,
       body = Some [(''error'', JStr ''Failed to send message to Slack: no_service'')]\<rparr>]"
  by code_simp

section \<open>The caller id\<close>

text \<open>
  C8, as the specification states it, fails: a header \<^verbatim>\<open>x-user-id\<close> that is present with
  an empty value is falsy for \<^verbatim>\<open>||\<close>, and the caller id is "anonymous", not the
  header's value.
\<close>

theorem empty_header_counterexample:
  "req_headers (request_of [(''x-user-id'', [])] milk_body) ''x-user-id'' = Some [] \<and>
   req_userId (userId_middleware (request_of [(''x-user-id'', [])] milk_body)) = Some ''anonymous'' \<and>
   req_userId (userId_middleware (request_of [(''x-user-id'', [])] milk_body)) \<noteq> Some []"
  by code_simp

text \<open>
  C8, amended: for every inbound request, the middleware resolves the caller id to the
  value of the \<^verbatim>\<open>x-user-id\<close> header when that header is present and not empty, and to
  the literal string "anonymous" otherwise; it changes nothing else of the request.
\<close>

theorem caller_id_from_header:
  "userId_middleware req =
     req\<lparr>req_userId := Some (case req_headers req ''x-user-id'' of
                               None \<Rightarrow> ''anonymous''
                             | Some h \<Rightarrow> if h = [] then ''anonymous'' else h)\<rparr>"
  by (simp add: userId_middleware_def or_default_def js_or_def field_val_def to_string_def
           split: option.splits)

theorem caller_id_from_header_witness:
  "req_userId (userId_middleware (request_of [(''x-user-id'', ''bob'')] milk_body)) = Some ''bob'' \<and>
   req_userId (userId_middleware (request_of [] milk_body)) = Some ''anonymous''"
  by (simp add: caller_id_from_header request_of_def)

section \<open>The caller id and the handlers\<close>

lemma summarize_ignores_caller:
  "req_body r1 = req_body r2 \<Longrightarrow>
   summarize_single_todo_server w r1 = summarize_single_todo_server w r2 \<and>
   summarize_single_todo_part_000 w r1 = summarize_single_todo_part_000 w r2 \<and>
   summarize_single_todo_part_001 w r1 = summarize_single_todo_part_001 w r2"
  by (simp add: summarize_single_todo_server_def summarize_single_todo_part_000_def
        summarize_single_todo_part_001_def)

lemma slack_ignores_caller:
  "req_body r1 = req_body r2 \<Longrightarrow> req_headers r1 ''user-agent'' = req_headers r2 ''user-agent'' \<Longrightarrow>
   send_single_todo_to_slack_axios w r1 = send_single_todo_to_slack_axios w r2 \<and>
   send_single_todo_to_slack_part_000 w r1 = send_single_todo_to_slack_part_000 w r2"
  by (simp add: send_single_todo_to_slack_axios_def send_single_todo_to_slack_part_000_def)

text \<open>
  C9: two requests to either endpoint that are identical except in the value or presence
  of the \<^verbatim>\<open>x-user-id\<close> header, under the same configuration and provider outcomes,
  produce the same outbound calls with the same payloads and the same responses; and the
  Slack message names the \<^verbatim>\<open>userId\<close> of the request body. No handler reads the caller
  id that the middleware derived from the header.
\<close>

theorem header_caller_id_never_read:
  assumes "req_body r1 = req_body r2"
    and "\<forall>h. h \<noteq> ''x-user-id'' \<longrightarrow> req_headers r1 h = req_headers r2 h"
  shows "post_summarize v w r1 = post_summarize v w r2 \<and>
         post_slack v w r1 = post_slack v w r2 \<and>
         (\<forall>url payload. AxiosPost url payload \<in> set (outbound (post_slack v w r1)) \<longrightarrow>
            prefix (''*New Todo Alert for User '' @ tpl (userId (req_body r1)) @ ''*:'')
                   (posted_text (AxiosPost url payload))) \<and>
         (\<forall>url payload. FetchPost url payload \<in> set (outbound (post_slack v w r1)) \<longrightarrow>
            prefix (''*New Todo Update from '' @ tpl (userId (req_body r1)) @ '' ('')
                   (posted_text (FetchPost url payload)))"
proof -
  have ua: "req_headers r1 ''user-agent'' = req_headers r2 ''user-agent''"
    using assms(2) by simp
  have b: "req_body (userId_middleware r1) = req_body (userId_middleware r2)"
    using assms(1) by simp
  have h: "req_headers (userId_middleware r1) ''user-agent'' = req_headers (userId_middleware r2) ''user-agent''"
    using ua by simp
  have same: "post_summarize v w r1 = post_summarize v w r2 \<and> post_slack v w r1 = post_slack v w r2"
    using summarize_ignores_caller [OF b, of w] slack_ignores_caller [OF b h, of w]
    by (cases v) (simp_all add: post_summarize_def post_slack_def)
  have ax: "outbound (send_single_todo_to_slack_axios w (userId_middleware r1)) = [] \<or>
            outbound (send_single_todo_to_slack_axios w (userId_middleware r1)) =
              [AxiosPost (tpl (SLACK_WEBHOOK_URL w)) (JObj [(''text'', JStr (slack_text_axios (req_body r1)))])]"
    by (simp add: slack_axios_outbound)
  have axp: "prefix (''*New Todo Alert for User '' @ tpl (userId (req_body r1)) @ ''*:'')
               (posted_text (AxiosPost u (JObj [(''text'', JStr (slack_text_axios (req_body r1)))])))" for u
    by (simp add: posted_text_def to_string_def slack_text_axios_def)
  obtain s fx where fs: "final_summary w (req_body r1) = (s, fx)"
    by (cases "final_summary w (req_body r1)")
  have fxo: "\<forall>url payload. FetchPost url payload \<notin> set (outbound fx) \<and> AxiosPost url payload \<notin> set (outbound fx)"
    using final_summary_outbound [of w "req_body r1"] fs by (auto split: if_splits)
  have fp: "\<forall>url payload. FetchPost url payload \<in> set (outbound (send_single_todo_to_slack_part_000 w (userId_middleware r1))) \<longrightarrow>
              payload = slack_blocks_message (req_body r1)
                 (or_default (req_headers r1 ''user-agent'') ''Unknown User-Agent'') s"
    using fs fxo by (auto simp: slack_part_000_outbound split: if_splits)
  have np: "\<forall>url payload. AxiosPost url payload \<notin> set (outbound (send_single_todo_to_slack_part_000 w (userId_middleware r1)))"
    using fs fxo by (auto simp: slack_part_000_outbound split: if_splits)
  have fpp: "prefix (''*New Todo Update from '' @ tpl (userId (req_body r1)) @ '' ('')
               (posted_text (FetchPost u (slack_blocks_message (req_body r1) a s)))" for u a
    by (simp add: posted_text_def to_string_def slack_blocks_message_def)
  have nf: "\<forall>url payload. FetchPost url payload \<notin> set (outbound (send_single_todo_to_slack_axios w (userId_middleware r1)))"
    using ax by auto
  have p1: "\<forall>url payload. AxiosPost url payload \<in> set (outbound (post_slack v w r1)) \<longrightarrow>
            prefix (''*New Todo Alert for User '' @ tpl (userId (req_body r1)) @ ''*:'')
                   (posted_text (AxiosPost url payload))"
    using ax axp np by (cases v) (auto simp: post_slack_def)
  have p2: "\<forall>url payload. FetchPost url payload \<in> set (outbound (post_slack v w r1)) \<longrightarrow>
            prefix (''*New Todo Update from '' @ tpl (userId (req_body r1)) @ '' ('')
                   (posted_text (FetchPost url payload))"
    using fp fpp nf by (cases v) (auto simp: post_slack_def)
  from same p1 p2 show ?thesis by blast
qed

text \<open>
  One request carries no \<^verbatim>\<open>x-user-id\<close> header and the other names "alice": the
  middleware derives different caller ids, and the effects are the same.
\<close>

theorem header_caller_id_never_read_witness:
  "req_userId (userId_middleware milk_request) \<noteq>
     req_userId (userId_middleware
        (request_of [(''x-user-id'', ''alice''), (''user-agent'', ''curl/8.0'')] milk_body)) \<and>
   post_summarize ServerJs sample_world milk_request =
     post_summarize ServerJs sample_world
        (request_of [(''x-user-id'', ''alice''), (''user-agent'', ''curl/8.0'')] milk_body) \<and>
   post_slack Part000 sample_world milk_request =
     post_slack Part000 sample_world
        (request_of [(''x-user-id'', ''alice''), (''user-agent'', ''curl/8.0'')] milk_body)"
proof -
  let ?alice = "request_of [(''x-user-id'', ''alice''), (''user-agent'', ''curl/8.0'')] milk_body"
  have h1: "req_body milk_request = req_body ?alice"
    by (simp add: milk_request_def request_of_def)
  have h2: "\<forall>h. h \<noteq> ''x-user-id'' \<longrightarrow> req_headers milk_request h = req_headers ?alice h"
    by (simp add: milk_request_def request_of_def)
  have d: "req_userId (userId_middleware milk_request) \<noteq> req_userId (userId_middleware ?alice)"
    by code_simp
  from header_caller_id_never_read [OF h1 h2, of ServerJs sample_world]
    header_caller_id_never_read [OF h1 h2, of Part000 sample_world] d
  show ?thesis by blast
qed

section \<open>The response envelope\<close>

lemma ok_body_keys:
  "has_key ''message'' \<lparr>status = st, body = Some ((''message'', m) # (case s of None \<Rightarrow> [] | Some j \<Rightarrow> [(''summary'', j)]))\<rparr>"
  "\<not> has_key ''error'' \<lparr>status = st, body = Some ((''message'', m) # (case s of None \<Rightarrow> [] | Some j \<Rightarrow> [(''summary'', j)]))\<rparr>"
  by (cases s; simp add: has_key_def)+

lemma error_body_keys:
  "has_key ''error'' \<lparr>status = st, body = Some [(''error'', e)]\<rparr>"
  "\<not> has_key ''message'' \<lparr>status = st, body = Some [(''error'', e)]\<rparr>"
  by (simp_all add: has_key_def)

lemma summarize_envelope:
  assumes "r \<in> set (responses (post_summarize v w req))"
  shows "body r \<noteq> None \<and>
         ((status r = 200 \<and> has_key ''message'' r \<and> \<not> has_key ''error'' r) \<or>
          (status r \<noteq> 200 \<and> has_key ''error'' r \<and> \<not> has_key ''message'' r))"
proof (cases v)
  case ServerJs
  with assms show ?thesis
    by (cases "summary_of_llm (gt0 w) (Some (JStr fallback_summary)) (llm_http w)")
       (simp_all add: post_summarize_def summarize_server_responses ok_body_keys error_body_keys)
next
  case Part000
  with assms show ?thesis
    by (cases "llm_sdk w")
       (simp_all add: post_summarize_def summarize_part_000_responses has_key_def)
next
  case Part001
  with assms show ?thesis
    by (cases "summary_of_llm (gt0 w) (Some (JStr [])) (llm_http w)")
       (simp_all add: post_summarize_def summarize_part_001_responses ok_body_keys)
qed

lemma slack_envelope:
  assumes "r \<in> set (responses (post_slack v w req))"
  shows "(status r = 200 \<and> has_key ''message'' r \<and> \<not> has_key ''error'' r) \<or>
         (status r \<noteq> 200 \<and> body r = None \<and> (status r = 304 \<or> status r < 200)) \<or>
         (status r \<noteq> 200 \<and> body r \<noteq> None \<and> has_key ''error'' r \<and> \<not> has_key ''message'' r)"
proof -
  from assms have "\<exists>r'. responses (post_slack v w req) = [r'] \<and>
     (status r' = 200 \<and> body r' = Some [(''message'', JStr ''Todo sent to Slack successfully!'')] \<or>
      status r' = 200 \<and> body r' = Some [(''message'', JStr ''Todo summary sent to Slack successfully!'')] \<or>
      status r' \<noteq> 200 \<and>
        (body r' = None \<and> (status r' = 304 \<or> status r' < 200) \<or>
         (\<exists>m. body r' = Some [(''error'', JStr m)] \<and> m \<noteq> [])))"
    using slack_axios_responses [of w "userId_middleware req"]
      slack_part_000_responses [of w "userId_middleware req"]
    by (cases v) (auto simp: post_slack_def)
  then obtain r' where r': "responses (post_slack v w req) = [r']"
    and shape: "status r' = 200 \<and> body r' = Some [(''message'', JStr ''Todo sent to Slack successfully!'')] \<or>
                status r' = 200 \<and> body r' = Some [(''message'', JStr ''Todo summary sent to Slack successfully!'')] \<or>
                status r' \<noteq> 200 \<and>
                  (body r' = None \<and> (status r' = 304 \<or> status r' < 200) \<or>
                   (\<exists>m. body r' = Some [(''error'', JStr m)] \<and> m \<noteq> []))"
    by blast
  from assms r' have "r = r'" by simp
  with shape show ?thesis by (auto simp: has_key_def)
qed

text \<open>
  C10, as the specification states it, fails: when the webhook answers 304, every variant
  forwards that status, and Express sends a 304 without a body, so the response has a
  status other than 200 and no \<^verbatim>\<open>error\<close> key.
\<close>

theorem forwarded_304_has_no_envelope:
  "responses (post_slack Part000 (sample_world\<lparr>slack_fetch := FetchResponse 304 (Inr [])\<rparr>) milk_request) =
     [\<lparr>status = 304, body = None\<rparr>] \<and>
   responses (post_slack ServerJs (sample_world\<lparr>slack_http := HttpResponse 304 (JStr [])\<rparr>) milk_request) =
     [\<lparr>status = 304, body = None\<rparr>] \<and>
   \<not> has_key ''error'' \<lparr>status = 304, body = None\<rparr>"
  by code_simp

text \<open>
  C10, amended: every HTTP response that a handler of either endpoint sends with a body
  has exactly one of the top-level keys \<^verbatim>\<open>message\<close> and \<^verbatim>\<open>error\<close>: with status 200 it
  has \<^verbatim>\<open>message\<close> and no \<^verbatim>\<open>error\<close>, with any other status it has \<^verbatim>\<open>error\<close> and no
  \<^verbatim>\<open>message\<close>. A response with status 200 always has its body; a response has no body
  only when it forwards a webhook status that is sent without one, 304 or an
  informational status.
\<close>

theorem envelope_has_message_xor_error:
  assumes "r \<in> set (responses (post_summarize v w req)) \<union> set (responses (post_slack v w req))"
  shows "(status r = 200 \<longrightarrow> has_key ''message'' r \<and> \<not> has_key ''error'' r) \<and>
         (status r \<noteq> 200 \<and> body r \<noteq> None \<longrightarrow> has_key ''error'' r \<and> \<not> has_key ''message'' r) \<and>
         (body r = None \<longrightarrow> status r = 304 \<or> status r < 200)"
proof -
  have b: "has_key k r \<Longrightarrow> body r \<noteq> None" for k
    by (cases "body r") (simp_all add: has_key_def)
  from assms summarize_envelope [of r v w req] slack_envelope [of r v w req] b
  show ?thesis by auto
qed

theorem envelope_has_message_xor_error_witness:
  "\<lparr>status = 200, body = Some [(''message'', JStr ''Single todo summary generated successfully.''),
                               (''summary'', JStr ''Buy milk by Jan 1.'')]\<rparr>
     \<in> set (responses (post_summarize Part000 sample_world milk_request)) \<union>
       set (responses (post_slack Part000 sample_world milk_request)) \<and>
   has_key ''message'' \<lparr>status = 200, body = Some [(''message'', JStr ''Single todo summary generated successfully.''),
                               (''summary'', JStr ''Buy milk by Jan 1.'')]\<rparr> \<and>
   \<lparr>status = 404, body = Some [(''error'', JStr ''Failed to send message to Slack: no_service'')]\<rparr>
     \<in> set (responses (post_summarize Part000
               (sample_world\<lparr>slack_fetch := FetchResponse 404 (Inr ''no_service'')\<rparr>) milk_request)) \<union>
       set (responses (post_slack Part000
               (sample_world\<lparr>slack_fetch := FetchResponse 404 (Inr ''no_service'')\<rparr>) milk_request)) \<and>
   has_key ''error'' \<lparr>status = 404, body = Some [(''error'', JStr ''Failed to send message to Slack: no_service'')]\<rparr> \<and>
   \<not> has_key ''message'' \<lparr>status = 404, body = Some [(''error'', JStr ''Failed to send message to Slack: no_service'')]\<rparr>"
proof -
  let ?ok = "\<lparr>status = 200, body = Some [(''message'', JStr ''Single todo summary generated successfully.''),
                          (''summary'', JStr ''Buy milk by Jan 1.'')]\<rparr>"
  let ?ko = "\<lparr>status = 404, body = Some [(''error'', JStr ''Failed to send message to Slack: no_service'')]\<rparr>"
  let ?w = "sample_world\<lparr>slack_fetch := FetchResponse 404 (Inr ''no_service'')\<rparr>"
  have h1: "?ok \<in> set (responses (post_summarize Part000 sample_world milk_request)) \<union>
                  set (responses (post_slack Part000 sample_world milk_request))"
    by code_simp
  have h2: "?ko \<in> set (responses (post_summarize Part000 ?w milk_request)) \<union>
                  set (responses (post_slack Part000 ?w milk_request))"
    by code_simp
  from envelope_has_message_xor_error [OF h1] envelope_has_message_xor_error [OF h2] h1 h2
  show ?thesis by simp
qed

end
